theory Spec2Isabelle
  imports Complex_Main
begin

section \<open>Data model\<close>

text \<open>
  Modelled from the spec: the interface \<^verbatim>\<open>Book\<close> of \<^verbatim>\<open>models/bookModel\<close>, which the
  service imports and which is not among the sources. The spec gives its fields:
  id, title, author, genre (strings), isBorrowed (boolean), borrowerId (optional string) and
  dueDate (optional timestamp string). An optional property is an \<open>option\<close>: \<open>None\<close> is
  a property that is absent from the object.

  The only due dates the service ever stores are \<^verbatim>\<open>new Date(t).toISOString()\<close> for a
  time value \<open>t\<close> in milliseconds, and the only use it makes of them is
  \<^verbatim>\<open>new Date(s).getTime()\<close>, which gives \<open>t\<close> back. The field therefore holds the
  time value the string denotes, an integer number of milliseconds. An integer beyond the
  range of time values stands for a string that denotes no date.
\<close>

record book =
  id_book :: string
  title :: string
  author :: string
  genre :: string
  isBorrowed :: bool
  borrowerId :: "string option"
  dueDate :: "int option"

text \<open>
  \<^verbatim>\<open>Omit<Book, "id" | "isBorrowed" | "borrowerId" | "dueDate">\<close>, the argument of
  \<^verbatim>\<open>addBook\<close>: the three remaining fields, all required.
\<close>

record bookData =
  title_d :: string
  author_d :: string
  genre_d :: string

text \<open>
  \<^verbatim>\<open>Partial<Book>\<close>, the argument of \<^verbatim>\<open>updateBook\<close>: every field of a book, each one
  supplied (\<open>Some v\<close>) or not (\<open>None\<close>). A supplied field has a value of the
  field's type, as in a request body that follows the interface.
\<close>

record book_partial =
  id_p :: "string option"
  title_p :: "string option"
  author_p :: "string option"
  genre_p :: "string option"
  isBorrowed_p :: "bool option"
  borrowerId_p :: "string option"
  dueDate_p :: "int option"

text \<open>
  The service throws plain \<^verbatim>\<open>Error\<close> objects that differ in their message only. The
  kinds are named as the specification names them:
  \<^item> \<open>ValidationError\<close>: "Missing required fields: title, author, and genre are required";
  \<^item> \<open>NotFoundError\<close>: "Book with ID ... not found" (and "... not found in the inventory");
  \<^item> \<open>AlreadyBorrowedError\<close>: "Book with ID ... is already borrowed";
  \<^item> \<open>NotBorrowedError\<close>: "Book with ID ... is not currently borrowed";
  \<^item> \<open>WrongBorrowerError\<close>: "Book with ID ... was not borrowed by this user".

  \<open>RangeError\<close> is not an error of the service's own: the language raises it when
  \<^verbatim>\<open>toISOString\<close> is called on a Date that is not valid.
\<close>

datatype error =
  ValidationError
| NotFoundError
| AlreadyBorrowedError
| NotBorrowedError
| WrongBorrowerError
| RangeError

text \<open>
  The catalog is the module-level array \<^verbatim>\<open>books\<close>. Every operation takes the array as it
  is before the call and gives back what it returns or throws (\<open>Inl\<close> is a throw) together
  with the array as it is after the call, also when it throws.
\<close>

type_synonym catalog = "book list"

type_synonym 'a outcome = "(error + 'a) \<times> catalog"

definition books_initial :: catalog where
  "books_initial =
     [\<lparr>id_book = ''1'', title = ''The Great Gatsby'', author = ''F. Scott Fitzgerald'',
        genre = ''Fiction'', isBorrowed = False, borrowerId = None, dueDate = None\<rparr>,
      \<lparr>id_book = ''2'', title = ''1984'', author = ''George Orwell'',
        genre = ''Dystopian'', isBorrowed = False, borrowerId = None, dueDate = None\<rparr>,
      \<lparr>id_book = ''3'', title = ''To Kill a Mockingbird'', author = ''Harper Lee'',
        genre = ''Classic'', isBorrowed = False, borrowerId = None, dueDate = None\<rparr>]"

section \<open>Dates and numbers\<close>

text \<open>
  A time value is a whole number of milliseconds of magnitude at most 8.64e15. A Date made
  from a number beyond that range is not valid: its \<^verbatim>\<open>getTime()\<close> is NaN (\<open>None\<close>) and
  its \<^verbatim>\<open>toISOString()\<close> raises RangeError. The clock is a time value, so every clock
  reading is a number that a double holds exactly.
\<close>

definition maxTime :: int where
  "maxTime = 8640000000000000"

definition validTime :: "int \<Rightarrow> bool" where
  "validTime t \<longleftrightarrow> \<bar>t\<bar> \<le> maxTime"

definition timeClip :: "int \<Rightarrow> int option" where
  "timeClip t = (if validTime t then Some t else None)"

text \<open>
  Numbers are doubles, with 53 significant bits. \<open>toDouble d\<close> is the double nearest to
  the integer \<open>d\<close>, the one with the even significand when two are equally near;
  \<open>ulp53 m\<close> is the distance between neighbouring doubles at magnitude \<open>m\<close>, which is 1
  below \<open>2 ^ 53\<close> and doubles with every further bit.
\<close>

function ulp53 :: "int \<Rightarrow> int" where
  "ulp53 m = (if m < 9007199254740992 then 1 else 2 * ulp53 (m div 2))"
  by pat_completeness auto
termination
  by (relation "measure nat") auto

declare ulp53.simps [simp del]

definition toDouble :: "int \<Rightarrow> int" where
  "toDouble d =
     (let u = ulp53 \<bar>d\<bar>; q = d div u; r = d mod u
      in if 2 * r < u then q * u
         else if 2 * r > u then (q + 1) * u
         else if even q then q * u else (q + 1) * u)"

section \<open>Array and object primitives\<close>

text \<open>
  \<^verbatim>\<open>books.find(p)\<close> is \<^const>\<open>List.find\<close>: the first element that satisfies \<open>p\<close>. It
  returns the stored object itself, so assigning to its fields changes that element of the
  array: \<open>modify_first p f\<close> applies the assignments \<open>f\<close> to the first element that
  satisfies \<open>p\<close> and leaves the array alone when there is none.
\<close>

fun modify_first :: "('a \<Rightarrow> bool) \<Rightarrow> ('a \<Rightarrow> 'a) \<Rightarrow> 'a list \<Rightarrow> 'a list" where
  "modify_first p f [] = []"
| "modify_first p f (x # xs) = (if p x then f x # xs else x # modify_first p f xs)"

text \<open>\<^verbatim>\<open>books.findIndex(p)\<close>: the index of the first element that satisfies \<open>p\<close>, or -1.\<close>

fun findIndex :: "('a \<Rightarrow> bool) \<Rightarrow> 'a list \<Rightarrow> int" where
  "findIndex p [] = - 1"
| "findIndex p (x # xs) =
     (if p x then 0
      else (let r = findIndex p xs in if r = - 1 then - 1 else r + 1))"

text \<open>\<^verbatim>\<open>books.splice(index, 1)\<close> for an index that is not negative.\<close>

definition splice1 :: "int \<Rightarrow> 'a list \<Rightarrow> 'a list" where
  "splice1 index xs = take (nat index) xs @ drop (nat index + 1) xs"

text \<open>
  \<^verbatim>\<open>n.toFixed(0)\<close> for a number that is not negative prints the nearest integer in
  decimal. \<open>toFixed0\<close> is the printing of that integer.
\<close>

fun toFixed0 :: "nat \<Rightarrow> string" where
  "toFixed0 n =
     (if n < 10 then [''0123456789'' ! n]
      else toFixed0 (n div 10) @ [''0123456789'' ! (n mod 10)])"

declare toFixed0.simps [simp del]

text \<open>
  \<^verbatim>\<open>Object.assign(book, update)\<close>: every property that the update has is copied onto the
  book, the others are left as they are.
\<close>

definition object_assign :: "book \<Rightarrow> book_partial \<Rightarrow> book" where
  "object_assign b u =
     \<lparr>id_book = (case id_p u of None \<Rightarrow> id_book b | Some v \<Rightarrow> v),
      title = (case title_p u of None \<Rightarrow> title b | Some v \<Rightarrow> v),
      author = (case author_p u of None \<Rightarrow> author b | Some v \<Rightarrow> v),
      genre = (case genre_p u of None \<Rightarrow> genre b | Some v \<Rightarrow> v),
      isBorrowed = (case isBorrowed_p u of None \<Rightarrow> isBorrowed b | Some v \<Rightarrow> v),
      borrowerId = (case borrowerId_p u of None \<Rightarrow> borrowerId b | Some v \<Rightarrow> Some v),
      dueDate = (case dueDate_p u of None \<Rightarrow> dueDate b | Some v \<Rightarrow> Some v)\<rparr>"

section \<open>The catalog operations of \<^verbatim>\<open>services/bookService.ts\<close>\<close>

definition getAllBooks :: "catalog \<Rightarrow> catalog outcome" where
  "getAllBooks books = (Inr books, books)"

text \<open>
  \<^verbatim>\<open>addBook\<close>. The identifier is \<^verbatim>\<open>(Math.random() * 10000).toFixed(0)\<close>. The random
  draw is an input of the model: \<open>rnd\<close> is the integer nearest to
  \<^verbatim>\<open>Math.random() * 10000\<close>, a number from 0 to 10000. An empty string is the falsy value
  of a string, so \<^verbatim>\<open>!bookData.title\<close> is \<open>title_d bookData = []\<close>.
\<close>

definition addBook :: "nat \<Rightarrow> bookData \<Rightarrow> catalog \<Rightarrow> book outcome" where
  "addBook rnd bookData books =
     (if title_d bookData = [] \<or> author_d bookData = [] \<or> genre_d bookData = []
      then (Inl ValidationError, books)
      else
        (let newBook =
               \<lparr>id_book = toFixed0 rnd, title = title_d bookData, author = author_d bookData,
                genre = genre_d bookData, isBorrowed = False, borrowerId = None,
                dueDate = None\<rparr>
         in (Inr newBook, books @ [newBook])))"

text \<open>
  \<^verbatim>\<open>updateBook\<close>: \<open>safeUpdate\<close> is a copy of the caller's data from which the four
  protected properties are deleted; it is then assigned onto the stored book.
\<close>

definition safeUpdate :: "book_partial \<Rightarrow> book_partial" where
  "safeUpdate bookData =
     bookData\<lparr>id_p := None, isBorrowed_p := None, borrowerId_p := None, dueDate_p := None\<rparr>"

definition updateBook :: "string \<Rightarrow> book_partial \<Rightarrow> catalog \<Rightarrow> book outcome" where
  "updateBook i bookData books =
     (case List.find (\<lambda>b. id_book b = i) books of
        None \<Rightarrow> (Inl NotFoundError, books)
      | Some b \<Rightarrow>
          (Inr (object_assign b (safeUpdate bookData)),
           modify_first (\<lambda>b. id_book b = i)
             (\<lambda>b. object_assign b (safeUpdate bookData)) books))"

definition deleteBook :: "string \<Rightarrow> catalog \<Rightarrow> bool outcome" where
  "deleteBook i books =
     (let index = findIndex (\<lambda>b. id_book b = i) books
      in if index \<noteq> - 1 then (Inr True, splice1 index books) else (Inr False, books))"

text \<open>
  \<^verbatim>\<open>borrowBook\<close>. \<open>now\<close> is the value of \<^verbatim>\<open>Date.now()\<close>, in milliseconds; the due date
  is 14 days later. The sum of a time value and the loan period is below \<open>2 ^ 53\<close>, so
  the addition is exact. The function first writes \<^verbatim>\<open>isBorrowed\<close> and \<^verbatim>\<open>borrowerId\<close>
  (\<open>mark_borrowed\<close>) and then builds the date string: when the due date is beyond the
  range of dates, \<^verbatim>\<open>toISOString\<close> raises RangeError and the two writes stay.
\<close>

definition loanPeriodMs :: int where
  "loanPeriodMs = 14 * 24 * 60 * 60 * 1000"

definition mark_borrowed :: "string \<Rightarrow> book \<Rightarrow> book" where
  "mark_borrowed u b = b\<lparr>isBorrowed := True, borrowerId := Some u\<rparr>"

definition borrow_fields :: "string \<Rightarrow> int \<Rightarrow> book \<Rightarrow> book" where
  "borrow_fields u due b = (mark_borrowed u b)\<lparr>dueDate := Some due\<rparr>"

definition borrowBook :: "int \<Rightarrow> string \<Rightarrow> string \<Rightarrow> catalog \<Rightarrow> book outcome" where
  "borrowBook now i u books =
     (case List.find (\<lambda>b. id_book b = i) books of
        None \<Rightarrow> (Inl NotFoundError, books)
      | Some b \<Rightarrow>
          if isBorrowed b then (Inl AlreadyBorrowedError, books)
          else
            (case timeClip (now + loanPeriodMs) of
               None \<Rightarrow>
                 (Inl RangeError, modify_first (\<lambda>b. id_book b = i) (mark_borrowed u) books)
             | Some due \<Rightarrow>
                 (Inr (borrow_fields u due b),
                  modify_first (\<lambda>b. id_book b = i) (borrow_fields u due) books)))"

text \<open>
  \<^verbatim>\<open>returnBook\<close>. \<open>now\<close> is the clock that \<^verbatim>\<open>new Date()\<close> reads. The number of days late
  is \<^verbatim>\<open>Math.ceil((currentDate.getTime() - dueDate.getTime()) / (24 * 60 * 60 * 1000))\<close>,
  computed in doubles:
  \<^item> A borrowed book without a due date gives \<^verbatim>\<open>new Date(undefined)\<close>, whose time value is
    NaN, and so does a date beyond the range; the number of days is then NaN (\<open>None\<close>).
    Every comparison with NaN is false, which leaves the penalty at 0.
  \<^item> The two time values are exact, their difference is below \<open>2 ^ 54\<close> in magnitude and
    the subtraction rounds it to the nearest double: \<open>toDouble\<close>. Up to \<open>2 ^ 53\<close> that
    is the difference itself, beyond it is the nearest even number.
  \<^item> The division rounds the quotient to the nearest double, which never moves it onto or
    across a whole number. A quotient that is not whole is at least 1/86400000 away from
    the whole number below it, and at least 2/86400000 when the dividend is even, as every
    double beyond \<open>2 ^ 53\<close> is. Doubles below \<open>2 ^ 27\<close> are less than \<open>2 ^ -26\<close> apart
    and those below \<open>2 ^ 28\<close> less than \<open>2 ^ -25\<close>, and half of that is less than the
    distance to the whole number in both cases (a quotient of \<open>2 ^ 27\<close> or more needs a
    dividend beyond \<open>2 ^ 53\<close>). So \<^verbatim>\<open>Math.ceil\<close> of the rounded quotient is the ceiling
    of the exact quotient of the rounded difference: \<open>ceil_div\<close>.
  \<^item> The penalty is a product of whole numbers far below \<open>2 ^ 53\<close>, which is exact.
\<close>

definition ceil_div :: "int \<Rightarrow> int \<Rightarrow> int" where
  "ceil_div a b = - ((- a) div b)"

definition msPerDay :: int where
  "msPerDay = 24 * 60 * 60 * 1000"

definition daysLate :: "int \<Rightarrow> book \<Rightarrow> int option" where
  "daysLate now b =
     (case timeClip now of
        None \<Rightarrow> None
      | Some currentDate \<Rightarrow>
          (case dueDate b of
             None \<Rightarrow> None
           | Some s \<Rightarrow>
               (case timeClip s of
                  None \<Rightarrow> None
                | Some due \<Rightarrow> Some (ceil_div (toDouble (currentDate - due)) msPerDay))))"

definition penalty_of :: "int option \<Rightarrow> int" where
  "penalty_of d =
     (case d of
        None \<Rightarrow> 0
      | Some days \<Rightarrow> if days > 0 then (if days > 14 then (days - 14) * 2 else 0) else 0)"

definition return_fields :: "book \<Rightarrow> book" where
  "return_fields b = b\<lparr>isBorrowed := False, borrowerId := None, dueDate := None\<rparr>"

text \<open>
  The result is \<^verbatim>\<open>Book & { penalty?: number }\<close>: the book and the penalty property, which
  is there only when the penalty is positive.
\<close>

definition returnBook ::
  "int \<Rightarrow> string \<Rightarrow> string \<Rightarrow> catalog \<Rightarrow> (book \<times> int option) outcome" where
  "returnBook now i u books =
     (case List.find (\<lambda>b. id_book b = i) books of
        None \<Rightarrow> (Inl NotFoundError, books)
      | Some b \<Rightarrow>
          if \<not> isBorrowed b then (Inl NotBorrowedError, books)
          else if borrowerId b \<noteq> Some u then (Inl WrongBorrowerError, books)
          else
            (let penalty = penalty_of (daysLate now b)
             in (Inr (return_fields b, if penalty > 0 then Some penalty else None),
                 modify_first (\<lambda>b. id_book b = i) return_fields books)))"

definition getRecommendations :: "catalog \<Rightarrow> catalog outcome" where
  "getRecommendations books = (Inr (take 3 books), books)"

section \<open>The second copy of the service (the unnamed source file)\<close>

text \<open>
  The second copy of the service has the same \<^verbatim>\<open>addBook\<close>, \<^verbatim>\<open>updateBook\<close>,
  \<^verbatim>\<open>deleteBook\<close>, \<^verbatim>\<open>borrowBook\<close> and \<^verbatim>\<open>getRecommendations\<close>. Its \<^verbatim>\<open>returnBook\<close>
  takes the identifier only: it does not look at the borrower and computes no penalty.
\<close>

definition returnBook_1arg :: "string \<Rightarrow> catalog \<Rightarrow> book outcome" where
  "returnBook_1arg i books =
     (case List.find (\<lambda>b. id_book b = i) books of
        None \<Rightarrow> (Inl NotFoundError, books)
      | Some b \<Rightarrow>
          if \<not> isBorrowed b then (Inl NotBorrowedError, books)
          else (Inr (return_fields b),
                modify_first (\<lambda>b. id_book b = i) return_fields books))"

text \<open>
  The mock table of borrow counts. \<^verbatim>\<open>Object.entries\<close> lists the properties of the object
  literal in the order they are written.
\<close>

definition getBorrowCountsLast6Months :: "(string \<times> int) list" where
  "getBorrowCountsLast6Months = [(''Fiction'', 15), (''Dystopian'', 25), (''Classic'', 20)]"

text \<open>
  \<^verbatim>\<open>Array.prototype.sort\<close> with a comparison function is a stable sort: \<open>a\<close> comes
  before \<open>b\<close> when \<open>cmp a b < 0\<close>, after it when \<open>cmp a b > 0\<close>, and the two keep their
  order when \<open>cmp a b = 0\<close>. Insertion from the right does that: the inserted element stood
  before all the elements it is inserted into.
\<close>

fun insort_cmp :: "('a \<Rightarrow> 'a \<Rightarrow> int) \<Rightarrow> 'a \<Rightarrow> 'a list \<Rightarrow> 'a list" where
  "insort_cmp cmp x [] = [x]"
| "insort_cmp cmp x (y # ys) =
     (if cmp x y \<le> 0 then x # y # ys else y # insort_cmp cmp x ys)"

definition sort_cmp :: "('a \<Rightarrow> 'a \<Rightarrow> int) \<Rightarrow> 'a list \<Rightarrow> 'a list" where
  "sort_cmp cmp xs = foldr (insort_cmp cmp) xs []"

text \<open>The comparison \<^verbatim>\<open>([, countA], [, countB]) => countB - countA\<close>.\<close>

definition byCountDesc :: "string \<times> int \<Rightarrow> string \<times> int \<Rightarrow> int" where
  "byCountDesc a b = snd b - snd a"

definition topGenres :: "string list" where
  "topGenres = map fst (take 3 (sort_cmp byCountDesc getBorrowCountsLast6Months))"

text \<open>
  \<^verbatim>\<open>getPopularBooks\<close>: the \<^verbatim>\<open>forEach\<close> loop pushes, genre after genre, the first ten books
  of the genre onto \<^verbatim>\<open>popularBooks\<close>, which starts empty.
\<close>

definition booksInGenre :: "catalog \<Rightarrow> string \<Rightarrow> book list" where
  "booksInGenre books g = take 10 (filter (\<lambda>book. genre book = g) books)"

definition getPopularBooks :: "catalog \<Rightarrow> catalog outcome" where
  "getPopularBooks books =
     (Inr (foldl (\<lambda>popularBooks g. popularBooks @ booksInGenre books g) [] topGenres),
      books)"

section \<open>Sequences of requests\<close>

text \<open>
  A request is one call of an operation that changes the catalog, with the inputs it reads
  from its environment (the clock, the random draw). The handlers run one request after the
  other; an error ends the request that raised it, and the next one finds the array as the
  failed call left it.
\<close>

datatype op =
  Add nat bookData
| Update string book_partial
| Delete string
| Borrow int string string
| Return int string string
| Return1 string

datatype op_result =
  BookResult book
| DeletedResult bool
| ReturnedResult "book \<times> int option"

fun exec :: "op \<Rightarrow> catalog \<Rightarrow> op_result outcome" where
  "exec (Add rnd d) books = apfst (map_sum id BookResult) (addBook rnd d books)"
| "exec (Update i d) books = apfst (map_sum id BookResult) (updateBook i d books)"
| "exec (Delete i) books = apfst (map_sum id DeletedResult) (deleteBook i books)"
| "exec (Borrow now i u) books = apfst (map_sum id BookResult) (borrowBook now i u books)"
| "exec (Return now i u) books = apfst (map_sum id ReturnedResult) (returnBook now i u books)"
| "exec (Return1 i) books = apfst (map_sum id BookResult) (returnBook_1arg i books)"

definition run :: "op list \<Rightarrow> catalog \<Rightarrow> catalog" where
  "run ops books = foldl (\<lambda>bs opn. snd (exec opn bs)) books ops"

text \<open>
  A request has its clock in range when the due date it computes is a date: that is every
  request but a loan made within 14 days of the last date there is.
\<close>

fun clock_in_range :: "op \<Rightarrow> bool" where
  "clock_in_range (Borrow now i u) = validTime (now + loanPeriodMs)"
| "clock_in_range opn = True"

text \<open>
  The invariant of the data model: the borrower and the due date are there together or not
  at all, and neither is there on a book that is not borrowed.
\<close>

definition book_inv :: "book \<Rightarrow> bool" where
  "book_inv b \<longleftrightarrow>
     ((borrowerId b = None) = (dueDate b = None)) \<and>
     (\<not> isBorrowed b \<longrightarrow> borrowerId b = None \<and> dueDate b = None)"

section \<open>Facts about the primitives\<close>

lemma ceil_div_ceiling: "ceil_div a b = \<lceil>real_of_int a / real_of_int b\<rceil>"
  by (simp add: ceil_div_def ceiling_divide_eq_div)

lemma find_modify_first:
  "(\<And>x. p (f x) = p x) \<Longrightarrow> List.find p (modify_first p f xs) = map_option f (List.find p xs)"
  by (induction xs) auto

lemma modify_first_twice:
  "(\<And>x. p (f x) = p x) \<Longrightarrow>
   modify_first p g (modify_first p f xs) = modify_first p (\<lambda>x. g (f x)) xs"
  by (induction xs) auto

lemma modify_first_update:
  "List.find p xs = Some x \<Longrightarrow>
   \<exists>n<length xs. xs ! n = x \<and> (\<forall>m<n. \<not> p (xs ! m)) \<and> modify_first p f xs = xs[n := f x]"
proof (induction xs)
  case Nil
  then show ?case by simp
next
  case (Cons y ys)
  show ?case
  proof (cases "p y")
    case True
    with Cons.prems have "y = x" by simp
    with True show ?thesis by (intro exI [of _ 0]) simp
  next
    case False
    with Cons.prems have "List.find p ys = Some x" by simp
    from Cons.IH [OF this] obtain n where n: "n < length ys" "ys ! n = x"
      "\<forall>m<n. \<not> p (ys ! m)" "modify_first p f ys = ys[n := f x]" by blast
    have "\<forall>m<Suc n. \<not> p ((y # ys) ! m)"
      using False n(3) by (auto simp: less_Suc_eq_0_disj)
    with n False show ?thesis by (intro exI [of _ "Suc n"]) simp
  qed
qed

lemma list_all_modify_first:
  "list_all P xs \<Longrightarrow> (\<And>x. P x \<Longrightarrow> P (f x)) \<Longrightarrow> list_all P (modify_first p f xs)"
  by (induction xs) auto

lemma list_all_splice1: "list_all P xs \<Longrightarrow> list_all P (splice1 i xs)"
  unfolding splice1_def list_all_iff
  by (auto dest: in_set_takeD in_set_dropD)

lemma find_None_ids: "List.find (\<lambda>b. id_book b = i) books = None \<longleftrightarrow> i \<notin> id_book ` set books"
  by (auto simp: find_None_iff)

lemma ulp53_small: "m < 9007199254740992 \<Longrightarrow> ulp53 m = 1"
  by (subst ulp53.simps) simp

lemma toDouble_exact: "\<bar>d\<bar> < 2 ^ 53 \<Longrightarrow> toDouble d = d"
  by (simp add: toDouble_def ulp53_small)

lemma penalty_of_Some:
  "penalty_of (Some d) = (if d \<le> 14 then 0 else (d - 14) * 2)"
  by (simp add: penalty_of_def)

section \<open>Overdue penalty\<close>

text \<open>
  Claim C1. A call of \<^verbatim>\<open>returnBook\<close> that succeeds (the book is found, is borrowed, and
  its recorded borrower is the caller) computes the number of days late as the ceiling of
  the time since the due date divided by one day. When that number is at most 14 the
  penalty is 0 and the result has no penalty property; when it is more than 14 the penalty
  is twice the number of days beyond 14 and the result carries it. The clock and the due
  date are time values less than \<open>2 ^ 53\<close> milliseconds (some 285000 years) apart, which
  is where the subtraction of the two is exact.
\<close>

theorem returnBook_penalty:
  assumes "List.find (\<lambda>b. id_book b = i) books = Some b"
    and "isBorrowed b" and "borrowerId b = Some u" and "dueDate b = Some due"
    and "validTime now" and "validTime due" and "\<bar>now - due\<bar> < 2 ^ 53"
  shows "let d = \<lceil>real_of_int (now - due) / real_of_int (24 * 60 * 60 * 1000)\<rceil> in
     daysLate now b = Some d \<and>
     (d \<le> 14 \<longrightarrow> penalty_of (daysLate now b) = 0 \<and>
        fst (returnBook now i u books) = Inr (return_fields b, None)) \<and>
     (d > 14 \<longrightarrow> penalty_of (daysLate now b) = (d - 14) * 2 \<and>
        fst (returnBook now i u books) = Inr (return_fields b, Some ((d - 14) * 2)))"
proof -
  define d where "d = \<lceil>real_of_int (now - due) / real_of_int (24 * 60 * 60 * 1000)\<rceil>"
  have "d = ceil_div (now - due) msPerDay"
    using ceiling_divide_eq_div [where 'a = real, of "now - due" 86400000]
    by (simp add: d_def msPerDay_def ceil_div_def)
  moreover have "toDouble (now - due) = now - due"
    using assms(7) by (rule toDouble_exact)
  ultimately have late: "daysLate now b = Some d"
    using assms(4-6) by (simp add: daysLate_def timeClip_def)
  have "d \<le> 14 \<Longrightarrow> fst (returnBook now i u books) = Inr (return_fields b, None)"
    using assms(1-3) by (simp add: returnBook_def late penalty_of_Some)
  moreover have "d > 14 \<Longrightarrow>
      fst (returnBook now i u books) = Inr (return_fields b, Some ((d - 14) * 2))"
    using assms(1-3) by (simp add: returnBook_def late penalty_of_Some)
  ultimately have "daysLate now b = Some d \<and>
     (d \<le> 14 \<longrightarrow> penalty_of (daysLate now b) = 0 \<and>
        fst (returnBook now i u books) = Inr (return_fields b, None)) \<and>
     (d > 14 \<longrightarrow> penalty_of (daysLate now b) = (d - 14) * 2 \<and>
        fst (returnBook now i u books) = Inr (return_fields b, Some ((d - 14) * 2)))"
    by (simp add: late penalty_of_Some)
  then show ?thesis
    unfolding d_def Let_def .
qed

text \<open>Sixteen days late costs 4: borrowed at time 0, due after 14 days, returned on day 30.\<close>

theorem returnBook_penalty_witness:
  "List.find (\<lambda>b. id_book b = ''2'') (snd (borrowBook 0 ''2'' ''ann'' books_initial)) =
     Some \<lparr>id_book = ''2'', title = ''1984'', author = ''George Orwell'', genre = ''Dystopian'',
           isBorrowed = True, borrowerId = Some ''ann'', dueDate = Some 1209600000\<rparr> \<and>
   validTime 2592000000 \<and> validTime 1209600000 \<and>
   \<bar>2592000000 - 1209600000 :: int\<bar> < 2 ^ 53 \<and>
   daysLate 2592000000
     \<lparr>id_book = ''2'', title = ''1984'', author = ''George Orwell'', genre = ''Dystopian'',
      isBorrowed = True, borrowerId = Some ''ann'', dueDate = Some 1209600000\<rparr> = Some 16 \<and>
   fst (returnBook 2592000000 ''2'' ''ann'' (snd (borrowBook 0 ''2'' ''ann'' books_initial))) =
     Inr (\<lparr>id_book = ''2'', title = ''1984'', author = ''George Orwell'', genre = ''Dystopian'',
           isBorrowed = False, borrowerId = None, dueDate = None\<rparr>, Some 4)"
proof -
  let ?b = "\<lparr>id_book = ''2'', title = ''1984'', author = ''George Orwell'', genre = ''Dystopian'',
           isBorrowed = True, borrowerId = Some ''ann'', dueDate = Some (1209600000::int)\<rparr>"
  let ?bs = "snd (borrowBook 0 ''2'' ''ann'' books_initial)"
  have f: "List.find (\<lambda>b. id_book b = ''2'') ?bs = Some ?b"
    by (simp add: borrowBook_def books_initial_def borrow_fields_def mark_borrowed_def
        loanPeriodMs_def timeClip_def validTime_def maxTime_def)
  have v: "validTime 2592000000" "validTime 1209600000"
    "\<bar>2592000000 - 1209600000 :: int\<bar> < 2 ^ 53"
    by (simp_all add: validTime_def maxTime_def)
  have "isBorrowed ?b" "borrowerId ?b = Some ''ann''" "dueDate ?b = Some 1209600000"
    by simp_all
  from returnBook_penalty [OF f this v] f v
  show ?thesis by (simp add: Let_def return_fields_def)
qed

text \<open>
  Beyond \<open>2 ^ 53\<close> milliseconds the subtraction rounds, and the penalty is computed from
  the rounded difference: a book due at the earliest date and returned 12960000000000001
  milliseconds later is 150000000 days late, one day less than the exact quotient gives.
\<close>

lemma returnBook_penalty_rounded:
  "fst (returnBook 4320000000000001 ''2'' ''ann''
     (snd (borrowBook (- 8640001209600000) ''2'' ''ann'' books_initial))) =
     Inr (\<lparr>id_book = ''2'', title = ''1984'', author = ''George Orwell'', genre = ''Dystopian'',
           isBorrowed = False, borrowerId = None, dueDate = None\<rparr>, Some 299999972)"
proof -
  have "toDouble 12960000000000001 = 12960000000000000"
    by (simp add: toDouble_def Let_def ulp53.simps [of 12960000000000001]
        ulp53.simps [of 6480000000000000])
  then show ?thesis
    by (simp add: borrowBook_def books_initial_def borrow_fields_def mark_borrowed_def
        loanPeriodMs_def timeClip_def validTime_def maxTime_def returnBook_def daysLate_def
        ceil_div_def msPerDay_def penalty_of_def return_fields_def Let_def)
qed

section \<open>Adding a book\<close>

text \<open>
  Claim C2, as amended. A call of \<^verbatim>\<open>addBook\<close> with a title, an author and a genre that
  are not empty returns a book that is not borrowed, carries the three fields, and has as
  its identifier the decimal print of the random draw (an integer from 0 to 10000); that
  book is appended to the catalog. The identifier is not compared with the identifiers in
  the catalog: it is new exactly when no stored book already has that print.
\<close>

theorem addBook_appends:
  assumes "title_d d \<noteq> []" and "author_d d \<noteq> []" and "genre_d d \<noteq> []"
  shows "\<exists>newBook. addBook rnd d books = (Inr newBook, books @ [newBook]) \<and>
     newBook = \<lparr>id_book = toFixed0 rnd, title = title_d d, author = author_d d,
                genre = genre_d d, isBorrowed = False, borrowerId = None, dueDate = None\<rparr> \<and>
     (id_book newBook \<notin> id_book ` set books \<longleftrightarrow> toFixed0 rnd \<notin> id_book ` set books)"
  using assms by (simp add: addBook_def Let_def)

theorem addBook_appends_witness:
  "title_d \<lparr>title_d = ''Dune'', author_d = ''Frank Herbert'', genre_d = ''Fiction''\<rparr> \<noteq> [] \<and>
   addBook 4711 \<lparr>title_d = ''Dune'', author_d = ''Frank Herbert'', genre_d = ''Fiction''\<rparr>
       books_initial =
     (Inr \<lparr>id_book = ''4711'', title = ''Dune'', author = ''Frank Herbert'',
            genre = ''Fiction'', isBorrowed = False, borrowerId = None, dueDate = None\<rparr>,
      books_initial @
      [\<lparr>id_book = ''4711'', title = ''Dune'', author = ''Frank Herbert'',
         genre = ''Fiction'', isBorrowed = False, borrowerId = None, dueDate = None\<rparr>])"
proof -
  have p: "toFixed0 4711 = ''4711''"
    by (simp add: toFixed0.simps [of 4711] toFixed0.simps [of 471] toFixed0.simps [of 47]
        toFixed0.simps [of 4])
  from addBook_appends [of "\<lparr>title_d = ''Dune'', author_d = ''Frank Herbert'',
      genre_d = ''Fiction''\<rparr>" 4711 books_initial]
  show ?thesis by (simp add: p)
qed

text \<open>
  The claim as it is written fails: the draw 1 gives the identifier of the first seed book.
\<close>

theorem addBook_fresh_id_counterexample:
  "title_d \<lparr>title_d = ''Dune'', author_d = ''Frank Herbert'', genre_d = ''Fiction''\<rparr> \<noteq> [] \<and>
   author_d \<lparr>title_d = ''Dune'', author_d = ''Frank Herbert'', genre_d = ''Fiction''\<rparr> \<noteq> [] \<and>
   genre_d \<lparr>title_d = ''Dune'', author_d = ''Frank Herbert'', genre_d = ''Fiction''\<rparr> \<noteq> [] \<and>
   fst (addBook 1 \<lparr>title_d = ''Dune'', author_d = ''Frank Herbert'', genre_d = ''Fiction''\<rparr>
          books_initial) =
     Inr \<lparr>id_book = ''1'', title = ''Dune'', author = ''Frank Herbert'',
           genre = ''Fiction'', isBorrowed = False, borrowerId = None, dueDate = None\<rparr> \<and>
   \<not> (''1'' \<notin> id_book ` set books_initial)"
proof -
  have "toFixed0 1 = ''1''"
    by (subst toFixed0.simps) simp
  then show ?thesis
    by (simp add: addBook_def Let_def books_initial_def)
qed

section \<open>Updating a book\<close>

lemma object_assign_safeUpdate:
  "object_assign b (safeUpdate d) =
     b\<lparr>title := (case title_p d of None \<Rightarrow> title b | Some v \<Rightarrow> v),
       author := (case author_p d of None \<Rightarrow> author b | Some v \<Rightarrow> v),
       genre := (case genre_p d of None \<Rightarrow> genre b | Some v \<Rightarrow> v)\<rparr>"
  by (simp add: object_assign_def safeUpdate_def)

text \<open>
  Claim C3. When a book with the identifier exists, \<^verbatim>\<open>updateBook\<close> changes the first such
  book only: its id, isBorrowed, borrowerId and dueDate stay as they are whatever the caller
  supplies for them, the title, author and genre that the caller supplies replace the
  stored ones, the updated book is returned, and every other position of the catalog holds
  the book it held before.
\<close>

theorem updateBook_protected:
  assumes "List.find (\<lambda>b. id_book b = i) books = Some b"
  shows "\<exists>b' n. updateBook i d books = (Inr b', books[n := b']) \<and>
     n < length books \<and> books ! n = b \<and> (\<forall>m<n. id_book (books ! m) \<noteq> i) \<and>
     id_book b' = id_book b \<and> isBorrowed b' = isBorrowed b \<and>
     borrowerId b' = borrowerId b \<and> dueDate b' = dueDate b \<and>
     title b' = (case title_p d of None \<Rightarrow> title b | Some v \<Rightarrow> v) \<and>
     author b' = (case author_p d of None \<Rightarrow> author b | Some v \<Rightarrow> v) \<and>
     genre b' = (case genre_p d of None \<Rightarrow> genre b | Some v \<Rightarrow> v) \<and>
     length (snd (updateBook i d books)) = length books \<and>
     (\<forall>m<length books. m \<noteq> n \<longrightarrow> snd (updateBook i d books) ! m = books ! m)"
proof -
  let ?f = "\<lambda>b. object_assign b (safeUpdate d)"
  from modify_first_update [OF assms, of ?f]
  obtain n where n: "n < length books" "books ! n = b"
    "\<forall>m<n. id_book (books ! m) \<noteq> i"
    "modify_first (\<lambda>b. id_book b = i) ?f books = books[n := ?f b]"
    by blast
  have upd: "updateBook i d books = (Inr (?f b), books[n := ?f b])"
    using assms n(4) by (simp add: updateBook_def)
  show ?thesis
    apply (rule exI [of _ "?f b"], rule exI [of _ n])
    using n(1-3) by (simp add: upd object_assign_safeUpdate)
qed

theorem updateBook_protected_witness:
  "List.find (\<lambda>b. id_book b = ''2'') books_initial =
     Some \<lparr>id_book = ''2'', title = ''1984'', author = ''George Orwell'', genre = ''Dystopian'',
           isBorrowed = False, borrowerId = None, dueDate = None\<rparr> \<and>
   updateBook ''2''
     \<lparr>id_p = Some ''99'', title_p = Some ''Nineteen Eighty-Four'', author_p = None,
      genre_p = None, isBorrowed_p = Some True, borrowerId_p = Some ''eve'',
      dueDate_p = Some 0\<rparr> books_initial =
     (Inr \<lparr>id_book = ''2'', title = ''Nineteen Eighty-Four'', author = ''George Orwell'',
            genre = ''Dystopian'', isBorrowed = False, borrowerId = None, dueDate = None\<rparr>,
      books_initial[1 := \<lparr>id_book = ''2'', title = ''Nineteen Eighty-Four'',
            author = ''George Orwell'', genre = ''Dystopian'', isBorrowed = False,
            borrowerId = None, dueDate = None\<rparr>])"
proof -
  have f: "List.find (\<lambda>b. id_book b = ''2'') books_initial =
     Some \<lparr>id_book = ''2'', title = ''1984'', author = ''George Orwell'', genre = ''Dystopian'',
           isBorrowed = False, borrowerId = None, dueDate = None\<rparr>"
    by (simp add: books_initial_def)
  from updateBook_protected [OF f, of "\<lparr>id_p = Some ''99'',
      title_p = Some ''Nineteen Eighty-Four'', author_p = None,
      genre_p = None, isBorrowed_p = Some True, borrowerId_p = Some ''eve'',
      dueDate_p = Some 0\<rparr>"]
  obtain b' n where
    "updateBook ''2'' \<lparr>id_p = Some ''99'', title_p = Some ''Nineteen Eighty-Four'',
        author_p = None, genre_p = None, isBorrowed_p = Some True,
        borrowerId_p = Some ''eve'', dueDate_p = Some 0\<rparr> books_initial =
      (Inr b', books_initial[n := b'])"
    by blast
  then show ?thesis
    using f by (simp add: updateBook_def books_initial_def object_assign_def safeUpdate_def)
qed

section \<open>Borrowing and returning\<close>

lemma borrow_fields_eq:
  "borrow_fields u due b = b\<lparr>isBorrowed := True, borrowerId := Some u, dueDate := Some due\<rparr>"
  by (simp add: borrow_fields_def mark_borrowed_def)

text \<open>
  Claim C4. \<^verbatim>\<open>borrowBook\<close> fails with NotFoundError when no book has the identifier,
  fails with AlreadyBorrowedError when the book with the identifier is borrowed, and
  otherwise marks that book as borrowed by the given borrower, due 14 days after the
  current time, stores it in its place and returns it. The current time is a clock whose
  due date is a date, that is a time value.
\<close>

theorem borrowBook_cases:
  "(i \<notin> id_book ` set books \<longrightarrow> borrowBook now i u books = (Inl NotFoundError, books)) \<and>
   (\<forall>b. List.find (\<lambda>b. id_book b = i) books = Some b \<and> isBorrowed b \<longrightarrow>
      borrowBook now i u books = (Inl AlreadyBorrowedError, books)) \<and>
   (\<forall>b. List.find (\<lambda>b. id_book b = i) books = Some b \<and> \<not> isBorrowed b \<and>
        validTime (now + 14 * 24 * 60 * 60 * 1000) \<longrightarrow>
      (\<exists>n<length books. books ! n = b \<and> (\<forall>m<n. id_book (books ! m) \<noteq> i) \<and>
         borrowBook now i u books =
           (Inr (b\<lparr>isBorrowed := True, borrowerId := Some u,
                   dueDate := Some (now + 14 * 24 * 60 * 60 * 1000)\<rparr>),
            books[n := b\<lparr>isBorrowed := True, borrowerId := Some u,
                   dueDate := Some (now + 14 * 24 * 60 * 60 * 1000)\<rparr>])) \<and>
      List.find (\<lambda>b. id_book b = i) (snd (borrowBook now i u books)) =
        Some (b\<lparr>isBorrowed := True, borrowerId := Some u,
                dueDate := Some (now + 14 * 24 * 60 * 60 * 1000)\<rparr>))"
proof (intro conjI allI impI)
  assume "i \<notin> id_book ` set books"
  then have "List.find (\<lambda>b. id_book b = i) books = None"
    by (simp add: find_None_ids)
  then show "borrowBook now i u books = (Inl NotFoundError, books)"
    by (simp add: borrowBook_def)
next
  fix b
  assume "List.find (\<lambda>b. id_book b = i) books = Some b \<and> isBorrowed b"
  then show "borrowBook now i u books = (Inl AlreadyBorrowedError, books)"
    by (simp add: borrowBook_def)
next
  fix b
  assume a: "List.find (\<lambda>b. id_book b = i) books = Some b \<and> \<not> isBorrowed b \<and>
      validTime (now + 14 * 24 * 60 * 60 * 1000)"
  let ?due = "now + 14 * 24 * 60 * 60 * 1000"
  let ?b' = "b\<lparr>isBorrowed := True, borrowerId := Some u, dueDate := Some ?due\<rparr>"
  have clip: "timeClip (now + loanPeriodMs) = Some ?due"
    using a by (simp add: timeClip_def loanPeriodMs_def)
  have bf: "borrow_fields u ?due b = ?b'"
    by (rule borrow_fields_eq)
  from a modify_first_update [of "\<lambda>b. id_book b = i" books b "borrow_fields u ?due"]
  obtain n where n: "n < length books" "books ! n = b"
    "\<forall>m<n. id_book (books ! m) \<noteq> i"
    "modify_first (\<lambda>b. id_book b = i) (borrow_fields u ?due) books = books[n := ?b']"
    unfolding bf by blast
  have res: "borrowBook now i u books = (Inr ?b', books[n := ?b'])"
    using a n(4) by (simp add: borrowBook_def clip borrow_fields_eq)
  with n show "\<exists>n<length books. books ! n = b \<and> (\<forall>m<n. id_book (books ! m) \<noteq> i) \<and>
      borrowBook now i u books = (Inr ?b', books[n := ?b'])"
    by blast
  have "List.find (\<lambda>b. id_book b = i)
        (modify_first (\<lambda>b. id_book b = i) (borrow_fields u ?due) books)
      = map_option (borrow_fields u ?due) (List.find (\<lambda>b. id_book b = i) books)"
    by (rule find_modify_first) (simp add: borrow_fields_eq)
  with a show "List.find (\<lambda>b. id_book b = i) (snd (borrowBook now i u books)) = Some ?b'"
    by (simp add: borrowBook_def clip borrow_fields_eq)
qed

theorem borrowBook_cases_witness:
  "''7'' \<notin> id_book ` set books_initial \<and>
   borrowBook 1000 ''7'' ''ann'' books_initial = (Inl NotFoundError, books_initial) \<and>
   List.find (\<lambda>b. id_book b = ''1'') books_initial =
     Some \<lparr>id_book = ''1'', title = ''The Great Gatsby'', author = ''F. Scott Fitzgerald'',
           genre = ''Fiction'', isBorrowed = False, borrowerId = None, dueDate = None\<rparr> \<and>
   validTime (1000 + 14 * 24 * 60 * 60 * 1000) \<and>
   fst (borrowBook 1000 ''1'' ''ann'' books_initial) =
     Inr \<lparr>id_book = ''1'', title = ''The Great Gatsby'', author = ''F. Scott Fitzgerald'',
          genre = ''Fiction'', isBorrowed = True, borrowerId = Some ''ann'',
          dueDate = Some 1209601000\<rparr> \<and>
   List.find (\<lambda>b. id_book b = ''1'') (snd (borrowBook 1000 ''1'' ''ann'' books_initial)) =
     Some \<lparr>id_book = ''1'', title = ''The Great Gatsby'', author = ''F. Scott Fitzgerald'',
          genre = ''Fiction'', isBorrowed = True, borrowerId = Some ''ann'',
          dueDate = Some 1209601000\<rparr> \<and>
   isBorrowed \<lparr>id_book = ''1'', title = ''The Great Gatsby'', author = ''F. Scott Fitzgerald'',
          genre = ''Fiction'', isBorrowed = True, borrowerId = Some ''ann'',
          dueDate = Some 1209601000\<rparr> \<and>
   borrowBook 2000 ''1'' ''bob'' (snd (borrowBook 1000 ''1'' ''ann'' books_initial)) =
     (Inl AlreadyBorrowedError, snd (borrowBook 1000 ''1'' ''ann'' books_initial))"
proof -
  let ?b = "\<lparr>id_book = ''1'', title = ''The Great Gatsby'', author = ''F. Scott Fitzgerald'',
           genre = ''Fiction'', isBorrowed = False, borrowerId = None, dueDate = None\<rparr>"
  let ?b' = "\<lparr>id_book = ''1'', title = ''The Great Gatsby'', author = ''F. Scott Fitzgerald'',
          genre = ''Fiction'', isBorrowed = True, borrowerId = Some ''ann'',
          dueDate = Some (1209601000::int)\<rparr>"
  let ?bs = "snd (borrowBook 1000 ''1'' ''ann'' books_initial)"
  have missing: "''7'' \<notin> id_book ` set books_initial"
    by (simp add: books_initial_def)
  have v: "validTime (1000 + 14 * 24 * 60 * 60 * 1000)"
    by (simp add: validTime_def maxTime_def)
  have f: "List.find (\<lambda>b. id_book b = ''1'') books_initial = Some ?b \<and> \<not> isBorrowed ?b \<and>
      validTime (1000 + 14 * 24 * 60 * 60 * 1000)"
    using v by (simp add: books_initial_def)
  note c1 = borrowBook_cases [of "''7''" books_initial 1000 "''ann''", THEN conjunct1,
      rule_format, OF missing]
  note c3 = borrowBook_cases [of "''1''" books_initial 1000 "''ann''", THEN conjunct2,
      THEN conjunct2, rule_format, OF f]
  have f': "List.find (\<lambda>b. id_book b = ''1'') ?bs = Some ?b'"
    using c3 by simp
  have g: "List.find (\<lambda>b. id_book b = ''1'') ?bs = Some ?b' \<and> isBorrowed ?b'"
    using f' by simp
  note c2 = borrowBook_cases [of "''1''" ?bs 2000 "''bob''", THEN conjunct2, THEN conjunct1,
      rule_format, OF g]
  have r: "fst (borrowBook 1000 ''1'' ''ann'' books_initial) = Inr ?b'"
    using c3 by auto
  show ?thesis
    using missing c1 f f' r c2 by simp
qed

text \<open>
  When the due date is beyond the range of dates, \<^verbatim>\<open>toISOString\<close> raises RangeError
  after the first two assignments: the stored book is then marked as borrowed, with its
  borrower and without a due date. A clock in the year 275760 is needed for that.
\<close>

lemma borrowBook_RangeError:
  assumes "List.find (\<lambda>b. id_book b = i) books = Some b" and "\<not> isBorrowed b"
    and "\<not> validTime (now + 14 * 24 * 60 * 60 * 1000)"
  shows "borrowBook now i u books =
     (Inl RangeError, modify_first (\<lambda>b. id_book b = i) (mark_borrowed u) books) \<and>
   List.find (\<lambda>b. id_book b = i) (snd (borrowBook now i u books)) =
     Some (b\<lparr>isBorrowed := True, borrowerId := Some u\<rparr>)"
proof -
  have clip: "timeClip (now + loanPeriodMs) = None"
    using assms(3) by (simp add: timeClip_def loanPeriodMs_def)
  have "List.find (\<lambda>b. id_book b = i)
        (modify_first (\<lambda>b. id_book b = i) (mark_borrowed u) books)
      = map_option (mark_borrowed u) (List.find (\<lambda>b. id_book b = i) books)"
    by (rule find_modify_first) (simp add: mark_borrowed_def)
  with assms(1,2) show ?thesis
    by (simp add: borrowBook_def clip mark_borrowed_def)
qed

lemma borrowBook_RangeError_iff:
  "fst (borrowBook now i u books) = Inl RangeError \<longleftrightarrow>
     (\<exists>b. List.find (\<lambda>b. id_book b = i) books = Some b \<and> \<not> isBorrowed b) \<and>
     \<not> validTime (now + loanPeriodMs)"
  by (auto simp: borrowBook_def timeClip_def split: option.splits)

lemma borrowBook_at_last_date:
  "borrowBook 8640000000000000 ''1'' ''ann'' books_initial =
     (Inl RangeError,
      books_initial[0 := \<lparr>id_book = ''1'', title = ''The Great Gatsby'',
        author = ''F. Scott Fitzgerald'', genre = ''Fiction'', isBorrowed = True,
        borrowerId = Some ''ann'', dueDate = None\<rparr>])"
  by (simp add: borrowBook_def books_initial_def timeClip_def validTime_def maxTime_def
      loanPeriodMs_def mark_borrowed_def)

text \<open>
  Claim C5. \<^verbatim>\<open>returnBook\<close> fails with NotFoundError when no book has the identifier,
  with NotBorrowedError when the book with the identifier is not borrowed, and with
  WrongBorrowerError when that book is borrowed and its recorded borrower is not the one
  given.
\<close>

theorem returnBook_errors:
  "(i \<notin> id_book ` set books \<longrightarrow> fst (returnBook now i u books) = Inl NotFoundError) \<and>
   (\<forall>b. List.find (\<lambda>b. id_book b = i) books = Some b \<and> \<not> isBorrowed b \<longrightarrow>
      fst (returnBook now i u books) = Inl NotBorrowedError) \<and>
   (\<forall>b. List.find (\<lambda>b. id_book b = i) books = Some b \<and> isBorrowed b \<and>
        borrowerId b \<noteq> Some u \<longrightarrow>
      fst (returnBook now i u books) = Inl WrongBorrowerError)"
  by (auto simp: returnBook_def find_None_ids [symmetric])

theorem returnBook_errors_witness:
  "''7'' \<notin> id_book ` set books_initial \<and>
   fst (returnBook 5000 ''7'' ''ann'' books_initial) = Inl NotFoundError \<and>
   \<not> isBorrowed (books_initial ! 0) \<and>
   fst (returnBook 5000 ''1'' ''ann'' books_initial) = Inl NotBorrowedError \<and>
   borrowerId (snd (borrowBook 1000 ''1'' ''ann'' books_initial) ! 0) \<noteq> Some ''bob'' \<and>
   fst (returnBook 5000 ''1'' ''bob'' (snd (borrowBook 1000 ''1'' ''ann'' books_initial))) =
     Inl WrongBorrowerError"
proof -
  let ?bs = "snd (borrowBook 1000 ''1'' ''ann'' books_initial)"
  have missing: "''7'' \<notin> id_book ` set books_initial"
    by (simp add: books_initial_def)
  have f: "List.find (\<lambda>b. id_book b = ''1'') books_initial = Some (books_initial ! 0) \<and>
      \<not> isBorrowed (books_initial ! 0)"
    by (simp add: books_initial_def)
  have g: "List.find (\<lambda>b. id_book b = ''1'') ?bs = Some (?bs ! 0) \<and> isBorrowed (?bs ! 0) \<and>
      borrowerId (?bs ! 0) \<noteq> Some ''bob''"
    by (simp add: books_initial_def borrowBook_def borrow_fields_def mark_borrowed_def
        timeClip_def validTime_def maxTime_def loanPeriodMs_def)
  note c1 = returnBook_errors [of "''7''" books_initial 5000 "''ann''", THEN conjunct1,
      rule_format, OF missing]
  note c2 = returnBook_errors [of "''1''" books_initial 5000 "''ann''", THEN conjunct2,
      THEN conjunct1, rule_format, OF f]
  note c3 = returnBook_errors [of "''1''" ?bs 5000 "''bob''", THEN conjunct2,
      THEN conjunct2, rule_format, OF g]
  show ?thesis
    using missing c1 f c2 g c3 by simp
qed

text \<open>
  The one-argument \<^verbatim>\<open>returnBook\<close> of the second copy raises the first two errors in the
  same way; it has no borrower to compare.
\<close>

lemma returnBook_1arg_errors:
  "(i \<notin> id_book ` set books \<longrightarrow> fst (returnBook_1arg i books) = Inl NotFoundError) \<and>
   (\<forall>b. List.find (\<lambda>b. id_book b = i) books = Some b \<and> \<not> isBorrowed b \<longrightarrow>
      fst (returnBook_1arg i books) = Inl NotBorrowedError)"
  by (auto simp: returnBook_1arg_def find_None_ids [symmetric])

section \<open>Recommendations\<close>

text \<open>
  Claim C6. \<^verbatim>\<open>getRecommendations\<close> never raises and leaves the catalog as it is; it
  returns the books at the first three positions of the catalog, in their order, and all
  the books when there are fewer than three. So it returns at most 3 books.
\<close>

theorem getRecommendations_first_three:
  "\<exists>recs. getRecommendations books = (Inr recs, books) \<and>
     length recs = min 3 (length books) \<and> length recs \<le> 3 \<and>
     (\<forall>k<length recs. recs ! k = books ! k) \<and>
     (length books < 3 \<longrightarrow> recs = books)"
  by (simp add: getRecommendations_def)

theorem getRecommendations_first_three_witness:
  "getRecommendations
     (snd (addBook 4711 \<lparr>title_d = ''Dune'', author_d = ''Frank Herbert'',
        genre_d = ''Fiction''\<rparr> books_initial)) =
     (Inr books_initial,
      snd (addBook 4711 \<lparr>title_d = ''Dune'', author_d = ''Frank Herbert'',
        genre_d = ''Fiction''\<rparr> books_initial)) \<and>
   getRecommendations (take 2 books_initial) = (Inr (take 2 books_initial), take 2 books_initial)"
  using getRecommendations_first_three [of "snd (addBook 4711 \<lparr>title_d = ''Dune'',
      author_d = ''Frank Herbert'', genre_d = ''Fiction''\<rparr> books_initial)"]
    getRecommendations_first_three [of "take 2 books_initial"]
  by (simp add: getRecommendations_def addBook_def Let_def books_initial_def)

section \<open>Popular books\<close>

lemma set_insort_cmp: "set (insort_cmp cmp x xs) = insert x (set xs)"
  by (induction xs) auto

lemma length_insort_cmp: "length (insort_cmp cmp x xs) = Suc (length xs)"
  by (induction xs) auto

lemma sorted_insort_byCountDesc:
  "sorted_wrt (\<lambda>a b. snd a \<ge> snd b) xs \<Longrightarrow>
   sorted_wrt (\<lambda>a b. snd a \<ge> snd b) (insort_cmp byCountDesc x xs)"
  by (induction xs) (auto simp: set_insort_cmp byCountDesc_def)

lemma sorted_sort_byCountDesc:
  "sorted_wrt (\<lambda>a b. snd a \<ge> snd b) (sort_cmp byCountDesc xs)"
  unfolding sort_cmp_def by (induction xs) (simp_all add: sorted_insort_byCountDesc)

lemma set_sort_cmp: "set (sort_cmp cmp xs) = set xs"
  unfolding sort_cmp_def by (induction xs) (simp_all add: set_insort_cmp)

lemma length_sort_cmp: "length (sort_cmp cmp xs) = length xs"
  unfolding sort_cmp_def by (induction xs) (simp_all add: length_insort_cmp)

lemma ranked_table:
  "sort_cmp byCountDesc getBorrowCountsLast6Months =
     [(''Dystopian'', 25), (''Classic'', 20), (''Fiction'', 15)]"
  by (simp add: sort_cmp_def getBorrowCountsLast6Months_def byCountDesc_def)

lemma foldl_push: "foldl (\<lambda>acc g. acc @ f g) acc gs = acc @ concat (map f gs)"
  by (induction gs arbitrary: acc) simp_all

text \<open>
  Claim C7. \<^verbatim>\<open>getPopularBooks\<close> orders the genres of the mock table by their borrow
  count, largest first, keeps the first three, and returns for each of them, in that order,
  the first ten books of the genre, one genre after the other. With the table of the source
  the order is Dystopian, Classic, Fiction.
\<close>

theorem getPopularBooks_ranked:
  "\<exists>ranked. ranked = sort_cmp byCountDesc getBorrowCountsLast6Months \<and>
     sorted_wrt (\<lambda>a b. snd a \<ge> snd b) ranked \<and>
     set ranked = set getBorrowCountsLast6Months \<and>
     length ranked = length getBorrowCountsLast6Months \<and>
     topGenres = map fst (take 3 ranked) \<and>
     topGenres = [''Dystopian'', ''Classic'', ''Fiction''] \<and>
     getPopularBooks books =
       (Inr (concat (map (\<lambda>g. take 10 (filter (\<lambda>book. genre book = g) books)) topGenres)),
        books) \<and>
     fst (getPopularBooks books) =
       Inr (take 10 (filter (\<lambda>book. genre book = ''Dystopian'') books) @
            take 10 (filter (\<lambda>book. genre book = ''Classic'') books) @
            take 10 (filter (\<lambda>book. genre book = ''Fiction'') books))"
proof -
  have top: "topGenres = [''Dystopian'', ''Classic'', ''Fiction'']"
    by (simp add: topGenres_def ranked_table)
  have pop: "getPopularBooks books =
       (Inr (concat (map (\<lambda>g. take 10 (filter (\<lambda>book. genre book = g) books)) topGenres)),
        books)"
    unfolding getPopularBooks_def booksInGenre_def
    using foldl_push [of "\<lambda>g. take 10 (filter (\<lambda>book. genre book = g) books)" "[]" topGenres]
    by simp
  have "fst (getPopularBooks books) =
       Inr (take 10 (filter (\<lambda>book. genre book = ''Dystopian'') books) @
            take 10 (filter (\<lambda>book. genre book = ''Classic'') books) @
            take 10 (filter (\<lambda>book. genre book = ''Fiction'') books))"
    unfolding pop top by simp
  with top pop show ?thesis
    by (simp add: sorted_sort_byCountDesc set_sort_cmp length_sort_cmp topGenres_def)
qed

theorem getPopularBooks_ranked_witness:
  "fst (getPopularBooks books_initial) =
     Inr [books_initial ! 1, books_initial ! 2, books_initial ! 0]"
proof -
  from getPopularBooks_ranked [of books_initial]
  have "fst (getPopularBooks books_initial) =
       Inr (take 10 (filter (\<lambda>book. genre book = ''Dystopian'') books_initial) @
            take 10 (filter (\<lambda>book. genre book = ''Classic'') books_initial) @
            take 10 (filter (\<lambda>book. genre book = ''Fiction'') books_initial))"
    by blast
  then show ?thesis
    by (simp add: books_initial_def)
qed

section \<open>The invariant of the catalog\<close>

lemma book_inv_borrow_fields: "book_inv (borrow_fields u due b)"
  by (simp add: book_inv_def borrow_fields_eq)

lemma book_inv_return_fields: "book_inv (return_fields b)"
  by (simp add: book_inv_def return_fields_def)

lemma book_inv_object_assign: "book_inv b \<Longrightarrow> book_inv (object_assign b (safeUpdate d))"
  by (simp add: book_inv_def object_assign_safeUpdate)

lemma addBook_inv: "list_all book_inv books \<Longrightarrow> list_all book_inv (snd (addBook rnd d books))"
  by (simp add: addBook_def Let_def book_inv_def)

lemma updateBook_inv:
  "list_all book_inv books \<Longrightarrow> list_all book_inv (snd (updateBook i d books))"
  by (simp add: updateBook_def list_all_modify_first book_inv_object_assign
      split: option.split)

lemma deleteBook_inv:
  "list_all book_inv books \<Longrightarrow> list_all book_inv (snd (deleteBook i books))"
  by (simp add: deleteBook_def Let_def list_all_splice1)

lemma borrowBook_inv:
  "validTime (now + loanPeriodMs) \<Longrightarrow> list_all book_inv books \<Longrightarrow>
   list_all book_inv (snd (borrowBook now i u books))"
  by (simp add: borrowBook_def timeClip_def list_all_modify_first book_inv_borrow_fields
      split: option.split)

lemma returnBook_inv:
  "list_all book_inv books \<Longrightarrow> list_all book_inv (snd (returnBook now i u books))"
  by (simp add: returnBook_def Let_def list_all_modify_first book_inv_return_fields
      split: option.split)

lemma returnBook_1arg_inv:
  "list_all book_inv books \<Longrightarrow> list_all book_inv (snd (returnBook_1arg i books))"
  by (simp add: returnBook_1arg_def list_all_modify_first book_inv_return_fields
      split: option.split)

lemma exec_inv:
  "clock_in_range opn \<Longrightarrow> list_all book_inv books \<Longrightarrow>
   list_all book_inv (snd (exec opn books))"
  by (cases opn)
    (simp_all add: addBook_inv updateBook_inv deleteBook_inv borrowBook_inv returnBook_inv
      returnBook_1arg_inv)

lemma run_inv:
  "list_all clock_in_range ops \<Longrightarrow> list_all book_inv books \<Longrightarrow>
   list_all book_inv (run ops books)"
  unfolding run_def by (induction ops arbitrary: books) (simp_all add: exec_inv)

lemma books_initial_inv: "list_all book_inv books_initial"
  by (simp add: books_initial_def book_inv_def)

text \<open>
  Under the invariant a book that records a borrower has a due date, so the due date that
  the penalty is computed from is there whenever \<^verbatim>\<open>returnBook\<close> passes its checks.
\<close>

lemma book_inv_dueDate: "book_inv b \<Longrightarrow> borrowerId b = Some u \<Longrightarrow> \<exists>due. dueDate b = Some due"
  by (cases "dueDate b") (auto simp: book_inv_def)

text \<open>
  Claim C8. In every catalog that a sequence of add, update, delete, borrow and return
  requests produces from the three seed records, every book has its borrower and its due
  date both present or both absent, and both absent when it is not borrowed. The clock of
  every loan in the sequence is in range.
\<close>

theorem reachable_book_inv:
  assumes "list_all clock_in_range ops"
  shows "\<forall>b \<in> set (run ops books_initial).
     ((borrowerId b = None) = (dueDate b = None)) \<and>
     (\<not> isBorrowed b \<longrightarrow> borrowerId b = None \<and> dueDate b = None)"
  using run_inv [OF assms books_initial_inv]
  by (simp add: list_all_iff book_inv_def)

text \<open>
  A run of six requests on the seed catalog: a loan, an update that tries to overwrite the
  protected fields, an addition, a deletion, a return by the wrong borrower (which fails)
  and a second loan.
\<close>

theorem reachable_book_inv_witness:
  "list_all clock_in_range
       [Borrow 1000 ''2'' ''ann'',
        Update ''2'' \<lparr>id_p = None, title_p = None, author_p = None, genre_p = Some ''Satire'',
          isBorrowed_p = Some False, borrowerId_p = None, dueDate_p = Some 0\<rparr>,
        Add 7 \<lparr>title_d = ''Dune'', author_d = ''Frank Herbert'', genre_d = ''Fiction''\<rparr>,
        Delete ''1'',
        Return 5000 ''2'' ''bob'',
        Borrow 6000 ''7'' ''bob''] \<and>
   run [Borrow 1000 ''2'' ''ann'',
        Update ''2'' \<lparr>id_p = None, title_p = None, author_p = None, genre_p = Some ''Satire'',
          isBorrowed_p = Some False, borrowerId_p = None, dueDate_p = Some 0\<rparr>,
        Add 7 \<lparr>title_d = ''Dune'', author_d = ''Frank Herbert'', genre_d = ''Fiction''\<rparr>,
        Delete ''1'',
        Return 5000 ''2'' ''bob'',
        Borrow 6000 ''7'' ''bob''] books_initial =
     [\<lparr>id_book = ''2'', title = ''1984'', author = ''George Orwell'', genre = ''Satire'',
        isBorrowed = True, borrowerId = Some ''ann'', dueDate = Some 1209601000\<rparr>,
      \<lparr>id_book = ''3'', title = ''To Kill a Mockingbird'', author = ''Harper Lee'',
        genre = ''Classic'', isBorrowed = False, borrowerId = None, dueDate = None\<rparr>,
      \<lparr>id_book = ''7'', title = ''Dune'', author = ''Frank Herbert'', genre = ''Fiction'',
        isBorrowed = True, borrowerId = Some ''bob'', dueDate = Some 1209606000\<rparr>] \<and>
   list_all book_inv
      [\<lparr>id_book = ''2'', title = ''1984'', author = ''George Orwell'', genre = ''Satire'',
        isBorrowed = True, borrowerId = Some ''ann'', dueDate = Some 1209601000\<rparr>,
      \<lparr>id_book = ''3'', title = ''To Kill a Mockingbird'', author = ''Harper Lee'',
        genre = ''Classic'', isBorrowed = False, borrowerId = None, dueDate = None\<rparr>,
      \<lparr>id_book = ''7'', title = ''Dune'', author = ''Frank Herbert'', genre = ''Fiction'',
        isBorrowed = True, borrowerId = Some ''bob'', dueDate = Some 1209606000\<rparr>]"
proof -
  let ?ops = "[Borrow 1000 ''2'' ''ann'',
        Update ''2'' \<lparr>id_p = None, title_p = None, author_p = None, genre_p = Some ''Satire'',
          isBorrowed_p = Some False, borrowerId_p = None, dueDate_p = Some 0\<rparr>,
        Add 7 \<lparr>title_d = ''Dune'', author_d = ''Frank Herbert'', genre_d = ''Fiction''\<rparr>,
        Delete ''1'',
        Return 5000 ''2'' ''bob'',
        Borrow 6000 ''7'' ''bob'']"
  have p: "toFixed0 7 = ''7''"
    by (subst toFixed0.simps) simp
  have c: "list_all clock_in_range ?ops"
    by (simp add: validTime_def maxTime_def loanPeriodMs_def)
  have r: "run ?ops books_initial =
     [\<lparr>id_book = ''2'', title = ''1984'', author = ''George Orwell'', genre = ''Satire'',
        isBorrowed = True, borrowerId = Some ''ann'', dueDate = Some 1209601000\<rparr>,
      \<lparr>id_book = ''3'', title = ''To Kill a Mockingbird'', author = ''Harper Lee'',
        genre = ''Classic'', isBorrowed = False, borrowerId = None, dueDate = None\<rparr>,
      \<lparr>id_book = ''7'', title = ''Dune'', author = ''Frank Herbert'', genre = ''Fiction'',
        isBorrowed = True, borrowerId = Some ''bob'', dueDate = Some 1209606000\<rparr>]"
    by (simp add: run_def books_initial_def borrowBook_def borrow_fields_def mark_borrowed_def
        timeClip_def validTime_def maxTime_def loanPeriodMs_def
        updateBook_def object_assign_def safeUpdate_def addBook_def Let_def p deleteBook_def
        splice1_def returnBook_def)
  from reachable_book_inv [OF c] c show ?thesis
    unfolding r by (simp add: book_inv_def)
qed

text \<open>
  The condition on the clock is needed: a loan at the last date there is raises RangeError
  between the assignments and leaves a book with a borrower and no due date.
\<close>

lemma run_clock_out_of_range:
  "run [Borrow 8640000000000000 ''1'' ''ann''] books_initial ! 0 =
     \<lparr>id_book = ''1'', title = ''The Great Gatsby'', author = ''F. Scott Fitzgerald'',
      genre = ''Fiction'', isBorrowed = True, borrowerId = Some ''ann'', dueDate = None\<rparr> \<and>
   \<not> book_inv (run [Borrow 8640000000000000 ''1'' ''ann''] books_initial ! 0)"
proof -
  have "run [Borrow 8640000000000000 ''1'' ''ann''] books_initial =
      snd (borrowBook 8640000000000000 ''1'' ''ann'' books_initial)"
    by (simp add: run_def)
  then show ?thesis
    unfolding borrowBook_at_last_date by (simp add: books_initial_def book_inv_def)
qed

section \<open>A loan and its return\<close>

lemma return_after_borrow_fields: "return_fields (borrow_fields u due b) = return_fields b"
  by (simp add: return_fields_def borrow_fields_eq)

lemma borrowBook_success:
  assumes "List.find (\<lambda>b. id_book b = i) books = Some b" and "\<not> isBorrowed b"
    and "fst (borrowBook now i u books) = Inr b1"
  shows "borrowBook now i u books =
     (Inr (borrow_fields u (now + loanPeriodMs) b),
      modify_first (\<lambda>b. id_book b = i) (borrow_fields u (now + loanPeriodMs)) books)"
  using assms by (simp add: borrowBook_def timeClip_def split: if_splits)

text \<open>
  Claim C9. When the book with the identifier is not borrowed and \<^verbatim>\<open>borrowBook\<close>
  succeeds, the \<^verbatim>\<open>returnBook\<close> by the same borrower that follows it succeeds too, and the
  stored record is then the record as it was before the loan, not borrowed and with no
  borrower and no due date; the rest of the catalog is as before.
\<close>

theorem borrow_then_return_restores:
  assumes "List.find (\<lambda>b. id_book b = i) books = Some b" and "\<not> isBorrowed b"
    and "fst (borrowBook now1 i u books) = Inr b1"
  shows "\<exists>books1 r books2 n.
     borrowBook now1 i u books = (Inr b1, books1) \<and>
     returnBook now2 i u books1 = (Inr r, books2) \<and>
     n < length books \<and> books ! n = b \<and>
     books2 = books[n := b\<lparr>isBorrowed := False, borrowerId := None, dueDate := None\<rparr>] \<and>
     List.find (\<lambda>b. id_book b = i) books2 =
       Some (b\<lparr>isBorrowed := False, borrowerId := None, dueDate := None\<rparr>)"
proof -
  let ?p = "\<lambda>b. id_book b = i"
  let ?due = "now1 + loanPeriodMs"
  let ?lentBooks = "modify_first ?p (borrow_fields u ?due) books"
  let ?lent = "borrow_fields u ?due b"
  let ?restored = "modify_first ?p return_fields books"
  have keep_b: "\<And>x. ?p (borrow_fields u ?due x) = ?p x"
    by (simp add: borrow_fields_eq)
  have keep_r: "\<And>x. ?p (return_fields x) = ?p x"
    by (simp add: return_fields_def)
  have borrow: "borrowBook now1 i u books = (Inr ?lent, ?lentBooks)"
    using assms by (rule borrowBook_success)
  with assms(3) have b1: "b1 = ?lent"
    by simp
  have found1: "List.find ?p ?lentBooks = Some ?lent"
    using find_modify_first [of ?p "borrow_fields u ?due" books, OF keep_b] assms(1) by simp
  have lent: "isBorrowed ?lent" "borrowerId ?lent = Some u"
    by (simp_all add: borrow_fields_eq)
  have twice: "modify_first ?p return_fields ?lentBooks = ?restored"
    using modify_first_twice [of ?p "borrow_fields u ?due" return_fields books, OF keep_b]
    by (simp add: return_after_borrow_fields)
  have returned: "returnBook now2 i u ?lentBooks =
      (Inr (return_fields ?lent,
            if penalty_of (daysLate now2 ?lent) > 0 then Some (penalty_of (daysLate now2 ?lent))
            else None), ?restored)"
    using found1 lent twice by (simp add: returnBook_def Let_def)
  from modify_first_update [OF assms(1), of return_fields]
  obtain n where n: "n < length books" "books ! n = b"
    "?restored = books[n := return_fields b]"
    by blast
  have found2: "List.find ?p ?restored = Some (return_fields b)"
    using find_modify_first [of ?p return_fields books, OF keep_r] assms(1) by simp
  have rf: "return_fields b = b\<lparr>isBorrowed := False, borrowerId := None, dueDate := None\<rparr>"
    by (simp add: return_fields_def)
  show ?thesis
    using borrow returned n found2 unfolding rf b1 by blast
qed

theorem borrow_then_return_restores_witness:
  "List.find (\<lambda>b. id_book b = ''3'') books_initial = Some (books_initial ! 2) \<and>
   \<not> isBorrowed (books_initial ! 2) \<and>
   fst (borrowBook 1000 ''3'' ''ann'' books_initial) =
     Inr \<lparr>id_book = ''3'', title = ''To Kill a Mockingbird'', author = ''Harper Lee'',
          genre = ''Classic'', isBorrowed = True, borrowerId = Some ''ann'',
          dueDate = Some 1209601000\<rparr> \<and>
   snd (returnBook 9000 ''3'' ''ann'' (snd (borrowBook 1000 ''3'' ''ann'' books_initial))) =
     books_initial"
proof -
  have f: "List.find (\<lambda>b. id_book b = ''3'') books_initial = Some (books_initial ! 2)"
    by (simp add: books_initial_def)
  have nb: "\<not> isBorrowed (books_initial ! 2)"
    by (simp add: books_initial_def)
  have ok: "fst (borrowBook 1000 ''3'' ''ann'' books_initial) =
     Inr \<lparr>id_book = ''3'', title = ''To Kill a Mockingbird'', author = ''Harper Lee'',
          genre = ''Classic'', isBorrowed = True, borrowerId = Some ''ann'',
          dueDate = Some 1209601000\<rparr>"
    by (simp add: books_initial_def borrowBook_def borrow_fields_eq timeClip_def
        validTime_def maxTime_def loanPeriodMs_def)
  have direct: "snd (returnBook 9000 ''3'' ''ann''
      (snd (borrowBook 1000 ''3'' ''ann'' books_initial))) = books_initial"
    by (simp add: books_initial_def borrowBook_def borrow_fields_eq timeClip_def
        validTime_def maxTime_def loanPeriodMs_def returnBook_def Let_def return_fields_def)
  from borrow_then_return_restores [OF f nb ok, of 9000] f nb ok direct
  show ?thesis by simp
qed

section \<open>Errors leave the catalog as it was\<close>

text \<open>
  Claim C10. Whenever \<^verbatim>\<open>addBook\<close>, \<^verbatim>\<open>updateBook\<close>, \<^verbatim>\<open>borrowBook\<close> or \<^verbatim>\<open>returnBook\<close>
  raises one of the errors of the service (ValidationError, NotFoundError,
  AlreadyBorrowedError, NotBorrowedError, WrongBorrowerError), the catalog after the call
  is the catalog before it: each of these checks comes before the first assignment.
  \<^verbatim>\<open>deleteBook\<close> raises no error at all.
\<close>

theorem errors_leave_catalog:
  assumes "e \<in> {ValidationError, NotFoundError, AlreadyBorrowedError, NotBorrowedError,
      WrongBorrowerError}"
  shows "(fst (addBook rnd d books) = Inl e \<longrightarrow> snd (addBook rnd d books) = books) \<and>
   (fst (updateBook i p books) = Inl e \<longrightarrow> snd (updateBook i p books) = books) \<and>
   fst (deleteBook i books) \<noteq> Inl e \<and>
   (fst (borrowBook now i u books) = Inl e \<longrightarrow> snd (borrowBook now i u books) = books) \<and>
   (fst (returnBook now i u books) = Inl e \<longrightarrow> snd (returnBook now i u books) = books) \<and>
   (fst (returnBook_1arg i books) = Inl e \<longrightarrow> snd (returnBook_1arg i books) = books)"
proof -
  have listed: "e \<noteq> RangeError"
    using assms by auto
  have "fst (deleteBook i books) \<noteq> Inl e"
    by (simp add: deleteBook_def Let_def)
  moreover have "fst (borrowBook now i u books) = Inl e \<Longrightarrow>
      snd (borrowBook now i u books) = books"
    using listed by (auto simp: borrowBook_def split: option.splits if_splits)
  moreover have "fst (addBook rnd d books) = Inl e \<Longrightarrow> snd (addBook rnd d books) = books"
    by (auto simp: addBook_def Let_def split: if_splits)
  moreover have "fst (updateBook i p books) = Inl e \<Longrightarrow> snd (updateBook i p books) = books"
    by (auto simp: updateBook_def split: option.splits)
  moreover have "fst (returnBook now i u books) = Inl e \<Longrightarrow>
      snd (returnBook now i u books) = books"
    by (auto simp: returnBook_def Let_def split: option.splits if_splits)
  moreover have "fst (returnBook_1arg i books) = Inl e \<Longrightarrow>
      snd (returnBook_1arg i books) = books"
    by (auto simp: returnBook_1arg_def split: option.splits if_splits)
  ultimately show ?thesis
    by blast
qed

theorem errors_leave_catalog_witness:
  "addBook 7 \<lparr>title_d = ''Dune'', author_d = [], genre_d = ''Fiction''\<rparr> books_initial =
     (Inl ValidationError, books_initial) \<and>
   updateBook ''9'' \<lparr>id_p = None, title_p = Some ''X'', author_p = None, genre_p = None,
       isBorrowed_p = None, borrowerId_p = None, dueDate_p = None\<rparr> books_initial =
     (Inl NotFoundError, books_initial) \<and>
   borrowBook 2000 ''1'' ''bob'' (snd (borrowBook 1000 ''1'' ''ann'' books_initial)) =
     (Inl AlreadyBorrowedError, snd (borrowBook 1000 ''1'' ''ann'' books_initial)) \<and>
   returnBook 2000 ''1'' ''bob'' (snd (borrowBook 1000 ''1'' ''ann'' books_initial)) =
     (Inl WrongBorrowerError, snd (borrowBook 1000 ''1'' ''ann'' books_initial)) \<and>
   returnBook 2000 ''2'' ''ann'' books_initial = (Inl NotBorrowedError, books_initial)"
proof -
  let ?d = "\<lparr>title_d = ''Dune'', author_d = [], genre_d = ''Fiction''\<rparr>"
  let ?p = "\<lparr>id_p = None, title_p = Some ''X'', author_p = None, genre_p = None,
       isBorrowed_p = None, borrowerId_p = None, dueDate_p = None\<rparr>"
  let ?bs = "snd (borrowBook 1000 ''1'' ''ann'' books_initial)"
  note ev = borrowBook_def books_initial_def borrow_fields_eq timeClip_def validTime_def
    maxTime_def loanPeriodMs_def
  have a: "fst (addBook 7 ?d books_initial) = Inl ValidationError"
    by (simp add: addBook_def)
  have b: "fst (updateBook ''9'' ?p books_initial) = Inl NotFoundError"
    by (simp add: updateBook_def books_initial_def)
  have c: "fst (borrowBook 2000 ''1'' ''bob'' ?bs) = Inl AlreadyBorrowedError"
    by (simp add: ev)
  have d: "fst (returnBook 2000 ''1'' ''bob'' ?bs) = Inl WrongBorrowerError"
    by (simp add: returnBook_def ev)
  have e: "fst (returnBook 2000 ''2'' ''ann'' books_initial) = Inl NotBorrowedError"
    by (simp add: returnBook_def books_initial_def)
  have l1: "ValidationError \<in> {ValidationError, NotFoundError, AlreadyBorrowedError,
      NotBorrowedError, WrongBorrowerError}"
    and l2: "NotFoundError \<in> {ValidationError, NotFoundError, AlreadyBorrowedError,
      NotBorrowedError, WrongBorrowerError}"
    and l3: "AlreadyBorrowedError \<in> {ValidationError, NotFoundError, AlreadyBorrowedError,
      NotBorrowedError, WrongBorrowerError}"
    and l4: "WrongBorrowerError \<in> {ValidationError, NotFoundError, AlreadyBorrowedError,
      NotBorrowedError, WrongBorrowerError}"
    and l5: "NotBorrowedError \<in> {ValidationError, NotFoundError, AlreadyBorrowedError,
      NotBorrowedError, WrongBorrowerError}"
    by simp_all
  note t1 = errors_leave_catalog [OF l1, of 7 ?d books_initial, THEN conjunct1,
      rule_format, OF a]
  note t2 = errors_leave_catalog [OF l2, of _ _ books_initial "''9''" ?p,
      THEN conjunct2, THEN conjunct1, rule_format, OF b]
  note t3 = errors_leave_catalog [OF l3, of _ _ ?bs "''1''" _ 2000 "''bob''",
      THEN conjunct2, THEN conjunct2, THEN conjunct2, THEN conjunct1, rule_format, OF c]
  note t4 = errors_leave_catalog [OF l4, of _ _ ?bs "''1''" _ 2000 "''bob''",
      THEN conjunct2, THEN conjunct2, THEN conjunct2, THEN conjunct2, THEN conjunct1,
      rule_format, OF d]
  note t5 = errors_leave_catalog [OF l5, of _ _ books_initial "''2''" _ 2000 "''ann''",
      THEN conjunct2, THEN conjunct2, THEN conjunct2, THEN conjunct2, THEN conjunct1,
      rule_format, OF e]
  show ?thesis
    using a t1 b t2 c t3 d t4 e t5 by (simp add: prod_eq_iff)
qed

text \<open>
  RangeError is the one error that is raised after an assignment (lemma
  \<open>borrowBook_RangeError\<close>); it is raised by the language, for a due date beyond the
  range of dates, and by no other operation.
\<close>

lemma RangeError_only_borrowBook:
  "fst (addBook rnd d books) \<noteq> Inl RangeError \<and>
   fst (updateBook i p books) \<noteq> Inl RangeError \<and>
   fst (deleteBook i books) \<noteq> Inl RangeError \<and>
   fst (returnBook now i u books) \<noteq> Inl RangeError \<and>
   fst (returnBook_1arg i books) \<noteq> Inl RangeError"
  by (simp add: addBook_def updateBook_def deleteBook_def returnBook_def returnBook_1arg_def
      Let_def split: option.split)

end
